theory Spec2Isabelle
  imports Main
begin

section \<open>Cell values and decoded rows\<close>

text \<open>
  The upload handler of \<^verbatim>\<open>src/index.js\<close> glues three collaborators together: the
  spreadsheet reader (\<^verbatim>\<open>xlsx\<close>), the Mongoose model \<^verbatim>\<open>DataModel\<close> built from
  \<^verbatim>\<open>dataSchema\<close>, and \<^verbatim>\<open>fs.unlinkSync\<close>. The handler and the schema are embedded
  from the source; the collaborators are embedded from their documented default
  behaviour, as far as the handler depends on it.

  A cell is a string, a number or a boolean. Strings are sequences of UTF-8 bytes. A
  numeric cell holds an integer; cells holding a number with a fraction are not
  represented, and the integers a cell can hold are those of magnitude up to \<open>2^53\<close>.
\<close>

datatype cell = CStr string | CNum int | CBool bool

type_synonym RawRow = "(string \<times> cell) list"

text \<open>
  A worksheet is given by the labels the reader derives from its first row (one label
  for every column of the sheet's range, none for a sheet without cells) and by the rows
  below it; an empty cell is \<open>None\<close>.
\<close>

record worksheet =
  header :: "string list"
  body :: "cell option list list"

record workbook =
  SheetNames :: "string list"
  Sheets :: "(string \<times> worksheet) list"

text \<open>One object per row, keyed by the header labels; empty cells are left out.\<close>

definition row_object :: "string list \<Rightarrow> cell option list \<Rightarrow> RawRow" where
  "row_object hdr cs = List.map_filter (\<lambda>(k, c). map_option (Pair k) c) (zip hdr cs)"

text \<open>
  \<^verbatim>\<open>xlsx.utils.sheet_to_json(worksheet)\<close> with default options: no sheet gives the
  empty array, and rows without any cell are skipped.
\<close>

definition sheet_to_json :: "worksheet option \<Rightarrow> RawRow list" where
  "sheet_to_json sheet =
     (case sheet of
        None \<Rightarrow> []
      | Some ws \<Rightarrow> filter (\<lambda>r. r \<noteq> []) (map (row_object (header ws)) (body ws)))"

section \<open>Errors\<close>

text \<open>
  Stored values. \<open>BNumber n\<close> is the number \<open>n\<close>, an integer of magnitude up to
  \<open>2^53\<close>; \<open>BDouble t\<close> is the number that the numeric literal \<open>t\<close> denotes, where
  that is no such integer (a fraction, a larger magnitude, an infinity, minus zero).
\<close>

datatype bson = BString string | BNumber int | BDouble string | ObjectId nat

type_synonym document = "(string \<times> bson) list"

datatype path_error = Required | CastError cell

text \<open>
  What a thrown error carries in its message: the text of a reader or file system error,
  the failing paths of a Mongoose validation error with the reason for each (the message
  names the model and the paths, and no position in the array; the order in which it
  lists the paths is not represented), the index and key of a duplicate key error of the
  store.
\<close>

datatype js_error =
    Error string
  | ValidationError "(string \<times> path_error) set"
  | DuplicateKey string "bson option"

section \<open>The file system\<close>

text \<open>
  A stored file is represented by what the reader makes of its bytes: either it throws,
  or it returns a workbook. \<open>deletable\<close> tells whether the file system lets the entry
  be removed.
\<close>

datatype file_data = Unreadable string | Decodes workbook

record stored_file =
  data :: file_data
  deletable :: bool

type_synonym filesystem = "string \<Rightarrow> stored_file option"

definition readFile :: "filesystem \<Rightarrow> string \<Rightarrow> js_error + workbook" where
  "readFile files filePath =
     (case files filePath of
        None \<Rightarrow> Inl (Error ''ENOENT'')
      | Some f \<Rightarrow> (case data f of Unreadable m \<Rightarrow> Inl (Error m) | Decodes wb \<Rightarrow> Inr wb))"

definition unlinkSync :: "string \<Rightarrow> filesystem \<Rightarrow> js_error + filesystem" where
  "unlinkSync filePath files =
     (case files filePath of
        None \<Rightarrow> Inl (Error ''ENOENT'')
      | Some f \<Rightarrow> if deletable f then Inr (files(filePath := None)) else Inl (Error ''EPERM''))"

section \<open>Strings and numbers of the host language\<close>

text \<open>
  White space of the host language, as UTF-8: tab, line feed, vertical tab, form feed,
  carriage return, space, no-break space, the other space separators, the line and
  paragraph separators and the byte order mark. \<^verbatim>\<open>trim\<close> removes it at both ends.
\<close>

definition white_space :: "string list" where
  "white_space =
     [[CHR 0x09], [CHR 0x0A], [CHR 0x0B], [CHR 0x0C], [CHR 0x0D], [CHR 0x20],
      [CHR 0xC2, CHR 0xA0], [CHR 0xE1, CHR 0x9A, CHR 0x80],
      [CHR 0xE2, CHR 0x80, CHR 0x80], [CHR 0xE2, CHR 0x80, CHR 0x81],
      [CHR 0xE2, CHR 0x80, CHR 0x82], [CHR 0xE2, CHR 0x80, CHR 0x83],
      [CHR 0xE2, CHR 0x80, CHR 0x84], [CHR 0xE2, CHR 0x80, CHR 0x85],
      [CHR 0xE2, CHR 0x80, CHR 0x86], [CHR 0xE2, CHR 0x80, CHR 0x87],
      [CHR 0xE2, CHR 0x80, CHR 0x88], [CHR 0xE2, CHR 0x80, CHR 0x89],
      [CHR 0xE2, CHR 0x80, CHR 0x8A], [CHR 0xE2, CHR 0x80, CHR 0xA8],
      [CHR 0xE2, CHR 0x80, CHR 0xA9], [CHR 0xE2, CHR 0x80, CHR 0xAF],
      [CHR 0xE2, CHR 0x81, CHR 0x9F], [CHR 0xE3, CHR 0x80, CHR 0x80],
      [CHR 0xEF, CHR 0xBB, CHR 0xBF]]"

function strip :: "string list \<Rightarrow> string \<Rightarrow> string" where
  "strip ws s =
     (case find (\<lambda>w. w \<noteq> [] \<and> take (length w) s = w) ws of
        None \<Rightarrow> s
      | Some w \<Rightarrow> strip ws (drop (length w) s))"
  by pat_completeness auto
termination
proof (relation "measure (\<lambda>(ws, s). length s)")
  show "wf (measure (\<lambda>(ws, s). length s))" by simp
next
  fix ws :: "string list" and s w :: string
  assume "find (\<lambda>w. w \<noteq> [] \<and> take (length w) s = w) ws = Some w"
  then have "w \<noteq> []" and "take (length w) s = w"
    by (auto simp: find_Some_iff)
  then have "s \<noteq> []" by auto
  with \<open>w \<noteq> []\<close> show "((ws, drop (length w) s), (ws, s)) \<in> measure (\<lambda>(ws, s). length s)"
    by simp
qed

declare strip.simps [simp del]

definition trim :: "string \<Rightarrow> string" where
  "trim s = rev (strip (map rev white_space) (rev (strip white_space s)))"



definition digit_value :: "char \<Rightarrow> nat option" where
  "digit_value c =
     map_of (zip ''0123456789abcdefABCDEF''
       [0, 1, 2, 3, 4, 5, 6, 7, 8, 9, 10, 11, 12, 13, 14, 15, 10, 11, 12, 13, 14, 15]) c"

definition is_digit :: "nat \<Rightarrow> char \<Rightarrow> bool" where
  "is_digit b c = (case digit_value c of None \<Rightarrow> False | Some d \<Rightarrow> d < b)"

definition digits_value :: "nat \<Rightarrow> string \<Rightarrow> nat" where
  "digits_value b s =
     foldl (\<lambda>acc c. b * acc + (case digit_value c of None \<Rightarrow> 0 | Some d \<Rightarrow> d)) 0 s"

definition digits :: "nat \<Rightarrow> string \<Rightarrow> nat option" where
  "digits b s = (if s \<noteq> [] \<and> list_all (is_digit b) s then Some (digits_value b s) else None)"

text \<open>
  \<^verbatim>\<open>Number(s)\<close> on a string, following the grammar of numeric string literals: white
  space around the literal is ignored and the empty text is 0; a literal is a binary,
  octal or hexadecimal integer with its prefix and no sign, or an optionally signed
  decimal literal (digits with an optional fraction and exponent) or \<^verbatim>\<open>Infinity\<close>.
  \<open>None\<close> is \<^verbatim>\<open>NaN\<close>.
\<close>

definition non_decimal :: "string \<Rightarrow> nat option" where
  "non_decimal t =
     (case t of
        z # x # ds \<Rightarrow>
          if z \<noteq> CHR ''0'' then None
          else if x \<in> set ''xX'' then digits 16 ds
          else if x \<in> set ''oO'' then digits 8 ds
          else if x \<in> set ''bB'' then digits 2 ds
          else None
      | _ \<Rightarrow> None)"

definition exponent :: "string \<Rightarrow> int option" where
  "exponent s =
     (case s of
        [] \<Rightarrow> Some 0
      | c # r \<Rightarrow>
          if c \<notin> set ''eE'' then None
          else (case r of
                  [] \<Rightarrow> None
                | d # ds \<Rightarrow>
                    if d = CHR ''+'' then map_option int (digits 10 ds)
                    else if d = CHR ''-'' then map_option (\<lambda>n. - int n) (digits 10 ds)
                    else map_option int (digits 10 (d # ds))))"

text \<open>An unsigned decimal literal as its digits \<open>m\<close> and a scale \<open>k\<close>: it denotes \<open>m * 10^k\<close>.\<close>

definition unsigned_decimal :: "string \<Rightarrow> (nat \<times> int) option" where
  "unsigned_decimal s =
     (let ip = takeWhile (is_digit 10) s;
          r = dropWhile (is_digit 10) s;
          dot = (r \<noteq> [] \<and> hd r = CHR ''.'');
          fp = (if dot then takeWhile (is_digit 10) (tl r) else []);
          rest = (if dot then dropWhile (is_digit 10) (tl r) else r)
      in if ip = [] \<and> fp = [] then None
         else map_option (\<lambda>e. (digits_value 10 (ip @ fp), e - int (length fp))) (exponent rest))"

definition scaled :: "nat \<Rightarrow> int \<Rightarrow> nat option" where
  "scaled m k =
     (if 0 \<le> k then Some (m * 10 ^ nat k)
      else if m mod 10 ^ nat (- k) = 0 then Some (m div 10 ^ nat (- k))
      else None)"

definition number_of :: "bool \<Rightarrow> nat option \<Rightarrow> string \<Rightarrow> bson" where
  "number_of neg v t =
     (case v of
        None \<Rightarrow> BDouble t
      | Some n \<Rightarrow>
          if n \<le> 9007199254740992 \<and> \<not> (neg \<and> n = 0)
          then BNumber (if neg then - int n else int n)
          else BDouble t)"

definition signed_decimal :: "bool \<Rightarrow> string \<Rightarrow> string \<Rightarrow> bson option" where
  "signed_decimal neg u t =
     (if u = ''Infinity'' then Some (BDouble t)
      else map_option (\<lambda>(m, k). number_of neg (scaled m k) t) (unsigned_decimal u))"

definition Number :: "string \<Rightarrow> bson option" where
  "Number s =
     (let t = trim s in
      case non_decimal t of
        Some n \<Rightarrow> Some (number_of False (Some n) t)
      | None \<Rightarrow>
          (case t of
             [] \<Rightarrow> Some (BNumber 0)
           | c # r \<Rightarrow>
               if c = CHR ''-'' then signed_decimal True r t
               else if c = CHR ''+'' then signed_decimal False r t
               else signed_decimal False t t))"

text \<open>The decimal text of an integer, as \<^verbatim>\<open>toString\<close> gives it below \<open>10^21\<close>.\<close>

fun digits_of :: "nat \<Rightarrow> string" where
  "digits_of n =
     (if n < 10 then [''0123456789'' ! n]
      else digits_of (n div 10) @ [''0123456789'' ! (n mod 10)])"

definition toString :: "int \<Rightarrow> string" where
  "toString i = (if i < 0 then CHR ''-'' # digits_of (nat (- i)) else digits_of (nat i))"

section \<open>The schema and the Mongoose model\<close>

datatype SchemaType = SString | SNumber

record path_options =
  ptype :: SchemaType
  required :: bool
  unique :: bool

type_synonym schema = "(string \<times> path_options) list"

text \<open>\<^verbatim>\<open>dataSchema\<close>, lines 42 to 56 of \<^verbatim>\<open>src/index.js\<close>.\<close>

definition dataSchema :: schema where
  "dataSchema =
     [(''name'', \<lparr>ptype = SString, required = True, unique = False\<rparr>),
      (''age'', \<lparr>ptype = SNumber, required = True, unique = False\<rparr>),
      (''email'', \<lparr>ptype = SString, required = True, unique = True\<rparr>)]"

text \<open>Casting to \<^verbatim>\<open>String\<close>: numbers and booleans are converted to text.\<close>

fun castString :: "cell \<Rightarrow> bson" where
  "castString (CStr s) = BString s"
| "castString (CNum n) = BString (toString n)"
| "castString (CBool b) = BString (if b then ''true'' else ''false'')"

text \<open>
  Casting to \<^verbatim>\<open>Number\<close>: the empty text is \<^verbatim>\<open>null\<close>, any other text and a boolean go
  through \<^verbatim>\<open>Number(...)\<close>, and \<^verbatim>\<open>NaN\<close> is a cast error.
\<close>

fun castNumber :: "cell \<Rightarrow> path_error + bson option" where
  "castNumber (CNum n) = Inr (Some (BNumber n))"
| "castNumber (CBool b) = Inr (Some (BNumber (if b then 1 else 0)))"
| "castNumber (CStr s) =
     (if s = [] then Inr None
      else (case Number s of
              None \<Rightarrow> Inl (CastError (CStr s))
            | Some n \<Rightarrow> Inr (Some n)))"

definition cast :: "SchemaType \<Rightarrow> cell \<Rightarrow> path_error + bson option" where
  "cast t c = (case t of SString \<Rightarrow> Inr (Some (castString c)) | SNumber \<Rightarrow> castNumber c)"

text \<open>The \<^verbatim>\<open>required\<close> validator: the value exists, and a string is not empty.\<close>

definition checkRequired :: "bson option \<Rightarrow> bool" where
  "checkRequired v = (case v of None \<Rightarrow> False | Some (BString s) \<Rightarrow> s \<noteq> [] | Some _ \<Rightarrow> True)"

definition validate_path :: "RawRow \<Rightarrow> string \<times> path_options \<Rightarrow> path_error + bson option" where
  "validate_path row p =
     (case map_of row (fst p) of
        None \<Rightarrow> if required (snd p) then Inl Required else Inr None
      | Some c \<Rightarrow>
          (case cast (ptype (snd p)) c of
             Inl e \<Rightarrow> Inl e
           | Inr v \<Rightarrow> if required (snd p) \<and> \<not> checkRequired v then Inl Required else Inr v))"

text \<open>
  The failing paths of a row with the reason for each. The validation error carries them
  as a set: the order in which the message lists them is not represented.
\<close>

definition path_errors :: "schema \<Rightarrow> RawRow \<Rightarrow> (string \<times> path_error) list" where
  "path_errors sch row =
     List.map_filter
       (\<lambda>p. case validate_path row p of Inl e \<Rightarrow> Some (fst p, e) | Inr _ \<Rightarrow> None) sch"

text \<open>
  Strict mode: only the paths of the schema are copied from the row. Besides the paths
  that \<^verbatim>\<open>dataSchema\<close> declares, every schema has the implicit paths \<open>_id\<close> and
  \<open>__v\<close>: a new document gets a fresh \<open>_id\<close>, and \<^verbatim>\<open>insertMany\<close> sets its version
  key \<open>__v\<close> to 0. Columns labelled \<open>_id\<close>, \<open>id\<close> or \<open>__v\<close> address these paths;
  what Mongoose does with them is not represented here, and the theorems below are
  stated for rows without such columns (\<open>plain_row\<close>).
\<close>

definition strict_fields :: "schema \<Rightarrow> RawRow \<Rightarrow> document" where
  "strict_fields sch row =
     List.map_filter
       (\<lambda>p. case validate_path row p of Inr (Some v) \<Rightarrow> Some (fst p, v) | _ \<Rightarrow> None) sch"

definition new_document :: "schema \<Rightarrow> nat \<Rightarrow> RawRow \<Rightarrow> js_error + document" where
  "new_document sch oid row =
     (case path_errors sch row of
        [] \<Rightarrow> Inr ((''_id'', ObjectId oid) # strict_fields sch row @ [(''__v'', BNumber 0)])
      | e # es \<Rightarrow> Inl (ValidationError (set (e # es))))"

text \<open>
  \<^verbatim>\<open>insertMany\<close> validates every document before anything is sent to the store; with
  the default \<^verbatim>\<open>ordered: true\<close> the error of the first document that fails is thrown.
\<close>

fun validate_all :: "schema \<Rightarrow> nat \<Rightarrow> RawRow list \<Rightarrow> js_error + document list" where
  "validate_all sch oid [] = Inr []"
| "validate_all sch oid (r # rs) =
     (case new_document sch oid r of
        Inl e \<Rightarrow> Inl e
      | Inr d \<Rightarrow>
          (case validate_all sch (Suc oid) rs of
             Inl e \<Rightarrow> Inl e
           | Inr ds \<Rightarrow> Inr (d # ds)))"

text \<open>The unique indexes of the collection, and the first one a document violates.\<close>

definition unique_paths :: "schema \<Rightarrow> string list" where
  "unique_paths sch = map fst (filter (\<lambda>p. unique (snd p)) sch)"

definition dup_key :: "schema \<Rightarrow> document list \<Rightarrow> document \<Rightarrow> string option" where
  "dup_key sch coll d =
     find (\<lambda>k. list_ex (\<lambda>d'. map_of d' k = map_of d k) coll) (unique_paths sch)"

text \<open>
  The store's ordered bulk insert: documents are written one after the other, and the
  first duplicate key stops the operation; the documents written before it stay.
\<close>

fun insert_ordered :: "schema \<Rightarrow> document list \<Rightarrow> document list \<Rightarrow> js_error option \<times> document list" where
  "insert_ordered sch [] coll = (None, coll)"
| "insert_ordered sch (d # ds) coll =
     (case dup_key sch coll d of
        Some k \<Rightarrow> (Some (DuplicateKey k (map_of d k)), coll)
      | None \<Rightarrow> insert_ordered sch ds (coll @ [d]))"

record mongo =
  datas :: "document list"
  next_oid :: nat

definition insertMany :: "schema \<Rightarrow> RawRow list \<Rightarrow> mongo \<Rightarrow> (js_error + document list) \<times> mongo" where
  "insertMany sch arr store =
     (let store' = store\<lparr>next_oid := next_oid store + length arr\<rparr> in
      case validate_all sch (next_oid store) arr of
        Inl e \<Rightarrow> (Inl e, store')
      | Inr docs \<Rightarrow>
          (case insert_ordered sch docs (datas store) of
             (Some e, coll) \<Rightarrow> (Inl e, store'\<lparr>datas := coll\<rparr>)
           | (None, coll) \<Rightarrow> (Inr docs, store'\<lparr>datas := coll\<rparr>)))"

section \<open>The upload handler\<close>

record multer_file =
  path :: string
  originalname :: string

record request =
  req_file :: "multer_file option"

record response =
  status :: nat
  message :: string
  insertedCount :: "nat option"
  error :: "js_error option"

record world =
  fs :: filesystem
  db :: mongo
  console :: "js_error list"

text \<open>The \<^verbatim>\<open>catch\<close> block, lines 102 to 109.\<close>

definition catch :: "js_error \<Rightarrow> world \<Rightarrow> response \<times> world" where
  "catch e w =
     (\<lparr>status = 500, message = ''An error occurred during the data transfer.'',
       insertedCount = None, error = Some e\<rparr>,
      w\<lparr>console := console w @ [e]\<rparr>)"

text \<open>
  \<^verbatim>\<open>app.post('/upload', upload.single('excelFile'), ...)\<close>, lines 64 to 110. The
  middleware has stored the uploaded bytes at \<^verbatim>\<open>req.file.path\<close> before the handler
  runs. \<^verbatim>\<open>SheetNames[0]\<close> of an empty array is \<^verbatim>\<open>undefined\<close>, which as a property key
  reads \<^verbatim>\<open>"undefined"\<close>.
\<close>

definition post_upload :: "request \<Rightarrow> world \<Rightarrow> response \<times> world" where
  "post_upload req w =
     (case req_file req of
        None \<Rightarrow>
          (\<lparr>status = 400, message = ''No file uploaded.'', insertedCount = None, error = None\<rparr>, w)
      | Some f \<Rightarrow>
          (let filePath = path f in
           case readFile (fs w) filePath of
             Inl e \<Rightarrow> catch e w
           | Inr workbook \<Rightarrow>
               (let sheetName = (case SheetNames workbook of [] \<Rightarrow> ''undefined'' | n # ns \<Rightarrow> n);
                    worksheet = map_of (Sheets workbook) sheetName;
                    jsonData = sheet_to_json worksheet
                in case insertMany dataSchema jsonData (db w) of
                     (Inl e, store) \<Rightarrow> catch e (w\<lparr>db := store\<rparr>)
                   | (Inr result, store) \<Rightarrow>
                       (case unlinkSync filePath (fs w) of
                          Inl e \<Rightarrow> catch e (w\<lparr>db := store\<rparr>)
                        | Inr files \<Rightarrow>
                            (\<lparr>status = 200,
                              message = ''Data successfully transferred to MongoDB.'',
                              insertedCount = Some (length result), error = None\<rparr>,
                             w\<lparr>db := store, fs := files\<rparr>)))))"

section \<open>Notions of the specification\<close>

text \<open>The rows the handler takes from a workbook: those of the first sheet.\<close>

definition first_sheet :: "workbook \<Rightarrow> worksheet option" where
  "first_sheet wb = map_of (Sheets wb) (case SheetNames wb of [] \<Rightarrow> ''undefined'' | n # ns \<Rightarrow> n)"

definition data_rows :: "workbook \<Rightarrow> RawRow list" where
  "data_rows wb = sheet_to_json (first_sheet wb)"















section \<open>Example uploads\<close>

definition sheet_of :: "cell option list list \<Rightarrow> workbook" where
  "sheet_of rows =
     \<lparr>SheetNames = [''Sheet1''],
      Sheets = [(''Sheet1'', \<lparr>header = [''name'', ''age'', ''email'', ''phone''], body = rows\<rparr>)]\<rparr>"

definition tmp :: string where
  "tmp = ''uploads/1700000000000-people.xlsx''"

definition req0 :: request where
  "req0 = \<lparr>req_file = Some \<lparr>path = tmp, originalname = ''people.xlsx''\<rparr>\<rparr>"

definition world_of :: "file_data \<Rightarrow> bool \<Rightarrow> document list \<Rightarrow> world" where
  "world_of d del coll =
     \<lparr>fs = Map.empty(tmp \<mapsto> \<lparr>data = d, deletable = del\<rparr>),
      db = \<lparr>datas = coll, next_oid = length coll\<rparr>, console = []\<rparr>"

definition ana :: "cell option list" where
  "ana = [Some (CStr ''Ana''), Some (CNum 30), Some (CStr ''ana@x.com''), Some (CStr ''555'')]"

definition bo :: "cell option list" where
  "bo = [Some (CStr ''Bo''), Some (CNum 25), Some (CStr ''bo@x.com'')]"

definition ana_shouting :: "cell option list" where
  "ana_shouting = [Some (CStr ''Ana B''), Some (CNum 31), Some (CStr '' Ana@X.com '')]"

definition nameless :: "cell option list" where
  "nameless = [None, Some (CNum 41), Some (CStr ''cy@x.com'')]"

definition ageless :: "cell option list" where
  "ageless = [Some (CStr ''Di''), Some (CStr ''old''), Some (CStr ''di@x.com'')]"

definition bo_stored :: document where
  "bo_stored =
     [(''_id'', ObjectId 0), (''name'', BString ''Bo''), (''age'', BNumber 25),
      (''email'', BString ''bo@x.com''), (''__v'', BNumber 0)]"

definition cy_stored :: document where
  "cy_stored =
     [(''_id'', ObjectId 0), (''name'', BString ''Cy''), (''age'', BNumber 41),
      (''email'', BString ''cy@x.com''), (''__v'', BNumber 0)]"

definition file0 :: multer_file where
  "file0 = \<lparr>path = tmp, originalname = ''people.xlsx''\<rparr>"

definition blank_book :: workbook where
  "blank_book =
     \<lparr>SheetNames = [''Sheet1''], Sheets = [(''Sheet1'', \<lparr>header = [], body = []\<rparr>)]\<rparr>"

definition ana_doc :: "nat \<Rightarrow> document" where
  "ana_doc i =
     [(''_id'', ObjectId i), (''name'', BString ''Ana''), (''age'', BNumber 30),
      (''email'', BString ''ana@x.com''), (''__v'', BNumber 0)]"

definition bo_doc :: "nat \<Rightarrow> document" where
  "bo_doc i =
     [(''_id'', ObjectId i), (''name'', BString ''Bo''), (''age'', BNumber 25),
      (''email'', BString ''bo@x.com''), (''__v'', BNumber 0)]"

definition bea :: "cell option list" where
  "bea = [Some (CStr ''Bea''), Some (CBool True), Some (CStr ''bea@x.com'')]"

lemmas ex_defs = req0_def world_of_def sheet_of_def tmp_def ana_def bo_def ana_shouting_def
  nameless_def ageless_def bo_stored_def cy_stored_def file0_def blank_book_def ana_doc_def
  bo_doc_def bea_def

lemmas eval_defs = post_upload_def readFile_def unlinkSync_def sheet_to_json_def row_object_def
  insertMany_def dataSchema_def new_document_def path_errors_def strict_fields_def
  validate_path_def cast_def checkRequired_def dup_key_def unique_paths_def catch_def
  data_rows_def first_sheet_def




section \<open>The handler after a successful read\<close>

lemma post_upload_run:
  assumes "req_file req = Some f" and "readFile (fs w) (path f) = Inr wb"
  shows "post_upload req w =
     (case insertMany dataSchema (data_rows wb) (db w) of
        (Inl e, store) \<Rightarrow> catch e (w\<lparr>db := store\<rparr>)
      | (Inr result, store) \<Rightarrow>
          (case unlinkSync (path f) (fs w) of
             Inl e \<Rightarrow> catch e (w\<lparr>db := store\<rparr>)
           | Inr files \<Rightarrow>
               (\<lparr>status = 200, message = ''Data successfully transferred to MongoDB.'',
                 insertedCount = Some (length result), error = None\<rparr>,
                w\<lparr>db := store, fs := files\<rparr>)))"
  using assms by (simp add: post_upload_def data_rows_def first_sheet_def Let_def)

section \<open>Validation of a batch\<close>






















section \<open>The ordered insert\<close>












section \<open>Well-formed and malformed rows\<close>











section \<open>The temporary file\<close>

text \<open>
  Claim C1: for every upload request with a file, the temporary file is deleted before
  the request completes, on every exit path. The handler calls \<^verbatim>\<open>fs.unlinkSync\<close> on
  the success path only: an upload whose second row has no name ends in the
  \<^verbatim>\<open>catch\<close> block with status 500, and the file is still there.
\<close>

theorem failed_upload_keeps_temp_file:
  "status (fst (post_upload req0 (world_of (Decodes (sheet_of [ana, nameless])) True []))) = 500 \<and>
   fs (snd (post_upload req0 (world_of (Decodes (sheet_of [ana, nameless])) True []))) tmp =
     Some \<lparr>data = Decodes (sheet_of [ana, nameless]), deletable = True\<rparr>"
  by (simp add: ex_defs eval_defs)

section \<open>Well-formed batches\<close>




section \<open>Malformed rows\<close>




section \<open>Duplicate emails\<close>







section \<open>Files that cannot be read, sheets without rows\<close>

text \<open>
  Claim C6, amended: for every uploaded file that the reader cannot read, the request
  ends with status 500, the response carries the reader's error, and the store is
  unchanged.
\<close>

theorem unreadable_file_fails:
  assumes "req_file req = Some f" and "readFile (fs w) (path f) = Inl e"
  shows "fst (post_upload req w) =
           \<lparr>status = 500, message = ''An error occurred during the data transfer.'',
            insertedCount = None, error = Some e\<rparr> \<and>
         db (snd (post_upload req w)) = db w"
  using assms by (simp add: post_upload_def catch_def)

theorem unreadable_file_fails_witness:
  "fst (post_upload req0 (world_of (Unreadable ''Unsupported file'') True [bo_stored])) =
     \<lparr>status = 500, message = ''An error occurred during the data transfer.'',
      insertedCount = None, error = Some (Error ''Unsupported file'')\<rparr> \<and>
   datas (db (snd (post_upload req0
     (world_of (Unreadable ''Unsupported file'') True [bo_stored])))) = [bo_stored]"
proof -
  let ?w = "world_of (Unreadable ''Unsupported file'') True [bo_stored]"
  have 1: "req_file req0 = Some file0" by (simp add: ex_defs)
  have 2: "readFile (fs ?w) (path file0) = Inl (Error ''Unsupported file'')"
    by (simp add: ex_defs readFile_def)
  show ?thesis using unreadable_file_fails [OF 1 2] by (simp add: world_of_def)
qed

text \<open>
  As the claim is stated it fails: a workbook whose first sheet has no cell, hence no
  header row, is answered with 200 and a count of 0.
\<close>

theorem sheet_without_header_accepted:
  "first_sheet blank_book = Some \<lparr>header = [], body = []\<rparr> \<and>
   status (fst (post_upload req0 (world_of (Decodes blank_book) True []))) = 200 \<and>
   insertedCount (fst (post_upload req0 (world_of (Decodes blank_book) True []))) = Some 0"
  by (simp add: ex_defs eval_defs)

text \<open>
  Claim C9, amended: for every uploaded spreadsheet whose first sheet has a header row
  and no data row, and whose temporary file can be deleted, the response is 200 with
  \<open>insertedCount = 0\<close> and the store gains no document.
\<close>

theorem header_only_sheet_inserts_nothing:
  assumes upl: "req_file req = Some f"
    and read: "readFile (fs w) (path f) = Inr wb"
    and sheet: "first_sheet wb = Some ws" "header ws \<noteq> []" "body ws = []"
    and unlink: "unlinkSync (path f) (fs w) = Inr files"
  shows "status (fst (post_upload req w)) = 200 \<and>
         insertedCount (fst (post_upload req w)) = Some 0 \<and>
         datas (db (snd (post_upload req w))) = datas (db w)"
  using sheet unlink
  by (simp add: post_upload_run [OF upl read] data_rows_def sheet_to_json_def insertMany_def)

theorem header_only_sheet_inserts_nothing_witness:
  "status (fst (post_upload req0 (world_of (Decodes (sheet_of [])) True [bo_stored]))) = 200 \<and>
   insertedCount (fst (post_upload req0
     (world_of (Decodes (sheet_of [])) True [bo_stored]))) = Some 0 \<and>
   datas (db (snd (post_upload req0
     (world_of (Decodes (sheet_of [])) True [bo_stored])))) = [bo_stored]"
proof -
  let ?w = "world_of (Decodes (sheet_of [])) True [bo_stored]"
  let ?ws = "\<lparr>header = [''name'', ''age'', ''email'', ''phone''], body = []\<rparr>"
  have 1: "req_file req0 = Some file0" by (simp add: ex_defs)
  have 2: "readFile (fs ?w) (path file0) = Inr (sheet_of [])"
    by (simp add: ex_defs readFile_def)
  have 3: "first_sheet (sheet_of []) = Some ?ws"
    by (simp add: ex_defs first_sheet_def)
  have 4: "header ?ws \<noteq> []" by simp
  have 5: "body ?ws = []" by simp
  have 6: "unlinkSync (path file0) (fs ?w) = Inr Map.empty"
    by (simp add: ex_defs unlinkSync_def)
  show ?thesis
    using header_only_sheet_inserts_nothing [OF 1 2 3 4 5 6] by (simp add: world_of_def)
qed

text \<open>
  As the claim is stated it fails when \<^verbatim>\<open>fs.unlinkSync\<close> throws: the header-only
  sheet is then answered with 500.
\<close>

theorem header_only_sheet_undeletable_file:
  "first_sheet (sheet_of []) =
     Some \<lparr>header = [''name'', ''age'', ''email'', ''phone''], body = []\<rparr> \<and>
   status (fst (post_upload req0 (world_of (Decodes (sheet_of [])) False []))) = 500 \<and>
   insertedCount (fst (post_upload req0 (world_of (Decodes (sheet_of [])) False []))) = None"
  by (simp add: ex_defs eval_defs)

section \<open>What a failure reports\<close>




text \<open>
  Claim C8, amended: when deleting the temporary file throws, which can only happen after
  the documents were inserted, the failure is logged and propagated: the response is 500
  with the deletion error, the inserted documents stay in the store and the file stays.
\<close>

theorem unlink_failure_propagates:
  assumes upl: "req_file req = Some f"
    and read: "readFile (fs w) (path f) = Inr wb"
    and ins: "insertMany dataSchema (data_rows wb) (db w) = (Inr result, store)"
    and unlink: "unlinkSync (path f) (fs w) = Inl e"
  shows "fst (post_upload req w) =
           \<lparr>status = 500, message = ''An error occurred during the data transfer.'',
            insertedCount = None, error = Some e\<rparr> \<and>
         console (snd (post_upload req w)) = console w @ [e] \<and>
         db (snd (post_upload req w)) = store \<and>
         fs (snd (post_upload req w)) = fs w"
  using ins unlink by (simp add: post_upload_run [OF upl read] catch_def)

theorem unlink_failure_propagates_witness:
  "fst (post_upload req0 (world_of (Decodes (sheet_of [bo])) False [])) =
     \<lparr>status = 500, message = ''An error occurred during the data transfer.'',
      insertedCount = None, error = Some (Error ''EPERM'')\<rparr> \<and>
   console (snd (post_upload req0 (world_of (Decodes (sheet_of [bo])) False []))) =
     [Error ''EPERM''] \<and>
   datas (db (snd (post_upload req0 (world_of (Decodes (sheet_of [bo])) False [])))) =
     [bo_stored]"
proof -
  let ?w = "world_of (Decodes (sheet_of [bo])) False []"
  have 1: "req_file req0 = Some file0" by (simp add: ex_defs)
  have 2: "readFile (fs ?w) (path file0) = Inr (sheet_of [bo])"
    by (simp add: ex_defs readFile_def)
  have 3: "insertMany dataSchema (data_rows (sheet_of [bo])) (db ?w) =
      (Inr [bo_stored], \<lparr>datas = [bo_stored], next_oid = 1\<rparr>)"
    by (simp add: ex_defs eval_defs)
  have 4: "unlinkSync (path file0) (fs ?w) = Inl (Error ''EPERM'')"
    by (simp add: ex_defs unlinkSync_def)
  show ?thesis using unlink_failure_propagates [OF 1 2 3 4] by (simp add: world_of_def)
qed

text \<open>
  As the claim is stated it fails: the insert of the one row succeeded, and the response
  reports the deletion error instead of the count.
\<close>

theorem unlink_failure_masks_success:
  "fst (post_upload req0 (world_of (Decodes (sheet_of [ana])) False [])) =
     \<lparr>status = 500, message = ''An error occurred during the data transfer.'',
      insertedCount = None, error = Some (Error ''EPERM'')\<rparr> \<and>
   datas (db (snd (post_upload req0 (world_of (Decodes (sheet_of [ana])) False [])))) =
     [ana_doc 0]"
  by (simp add: ex_defs eval_defs)

section \<open>The fields of a stored document\<close>




end
